theory Spec2Isabelle
  imports Complex_Main
begin

section \<open>Normalized schema (pkg/providers/types.go)\<close>

text \<open>
  A Go \<open>float64\<close> is either a finite number or one of the three special values. A finite
  value is represented by the real number it denotes (both zeros by \<open>0\<close>); the theorems
  below quantify over every real, hence over every finite \<open>float64\<close>. Comparison with a
  finite constant follows IEEE 754: every comparison with NaN is false.
\<close>

datatype float64 = Finite real | PosInf | NegInf | NaN

fun float64_le :: "float64 \<Rightarrow> real \<Rightarrow> bool" where
  "float64_le (Finite x) c = (x \<le> c)"
| "float64_le NegInf c = True"
| "float64_le PosInf c = False"
| "float64_le NaN c = False"

fun float64_gt :: "float64 \<Rightarrow> real \<Rightarrow> bool" where
  "float64_gt (Finite x) c = (x > c)"
| "float64_gt PosInf c = True"
| "float64_gt NegInf c = False"
| "float64_gt NaN c = False"

text \<open>
  A \<open>time.Time\<close> is kept as its Unix seconds and nanoseconds. The zero value
  \<open>time.Time{}\<close> is January 1, year 1, 00:00:00 UTC.
\<close>

datatype time = Time (unixSec: int) (nanos: nat)

definition zeroTime :: time where
  "zeroTime = Time (- 62135596800) 0"

definition time_Unix :: "int \<Rightarrow> nat \<Rightarrow> time" where
  "time_Unix sec nsec = Time sec nsec"

text \<open>A Go \<open>error\<close> is represented by its message; \<open>nil\<close> is \<open>None\<close>.\<close>

type_synonym error = string

record PaymentRequest =
  Mode :: string
  Amount :: float64
  Currency :: string
  CardNumber :: string
  ExpiryMonth :: string
  ExpiryYear :: string
  CVV :: string

record PaymentResponse =
  Success :: bool
  TransactionID :: string
  Status :: string
  Amount :: float64
  Currency :: string
  Date :: "time option"

record PaymentError =
  Success :: bool
  ErrorCode :: string
  ErrorMessage :: string

section \<open>Library functions the adapters call\<close>

text \<open>
  The adapters call three functions of the Go standard library whose results are text
  renderings of numbers and instants: \<open>strconv.FormatFloat(x, 'f', -1, 64)\<close>,
  \<open>strconv.ParseFloat(s, 64)\<close>, which returns a value and an error together, and
  \<open>Time.MarshalJSON\<close>, which yields the text of a JSON string or fails. They are
  parameters of the model: every theorem that mentions a \<open>golib\<close> variable holds for
  whatever these functions compute.
\<close>

record golib =
  FormatFloat :: "float64 \<Rightarrow> string"
  ParseFloat :: "string \<Rightarrow> float64 \<times> error option"
  Time_MarshalJSON :: "time \<Rightarrow> string option"

text \<open>
  The simulated provider call reads a random number and the clock. Both are inputs of
  the model: \<open>draw\<close> is the result of \<open>rand.Float64()\<close>, \<open>now\<close> that of \<open>time.Now()\<close>.
\<close>

record env =
  draw :: real
  now :: time

section \<open>Envelopes: values of type interface{}\<close>

text \<open>
  The provider-native envelopes are Go values of type \<open>interface{}\<close>. The model covers
  \<open>nil\<close>, booleans, strings, integers, \<open>time.Time\<close>, \<open>map[string]interface{}\<close>,
  \<open>[]interface{}\<close> and, as a value that \<open>encoding/json\<close> cannot encode, a channel. A map
  is an association list read with \<open>map_of\<close>; a nil map behaves like the empty map in
  everything the adapters do with it. \<open>VSlice\<close> stands for a slice that is not nil.
\<close>

datatype gvalue =
    VNil
  | VBool bool
  | VString string
  | VInt int
  | VTime time
  | VMap "(string \<times> gvalue) list"
  | VSlice "gvalue list"
  | VChan

text \<open>The text \<open>fmt\<close> prints for the verb \<open>%T\<close>.\<close>

fun typeName :: "gvalue \<Rightarrow> string" where
  "typeName VNil = ''<nil>''"
| "typeName (VBool b) = ''bool''"
| "typeName (VString s) = ''string''"
| "typeName (VInt i) = ''int''"
| "typeName (VTime t) = ''time.Time''"
| "typeName (VMap m) = ''map[string]interface {}''"
| "typeName (VSlice vs) = ''[]interface {}''"
| "typeName VChan = ''chan int''"

text \<open>
  A panic of the Go runtime (here: a failed type assertion without the \<open>ok\<close> form) is an
  outcome of its own, distinct from every returned pair.
\<close>

datatype 'a outcome = Panic | Returned 'a

section \<open>encoding/json as the adapters use it\<close>

text \<open>
  \<open>json.Marshal\<close> writes a string value "coerced to valid UTF-8, replacing invalid
  bytes with the Unicode replacement rune"; \<open>json.Unmarshal\<close> reads that text back. So a
  string that goes through \<open>Marshal\<close> and \<open>Unmarshal\<close> comes out as \<open>toValidUTF8\<close> of
  itself. \<open>runeLen\<close> is the width of the well-formed UTF-8 sequence at the head of the
  bytes, by the table of \<open>unicode/utf8\<close>, and \<open>0\<close> where there is none.
\<close>

definition contByte :: "nat \<Rightarrow> bool" where
  "contByte b \<longleftrightarrow> 128 \<le> b \<and> b \<le> 191"

definition tail2 :: "nat \<Rightarrow> nat \<Rightarrow> nat list \<Rightarrow> nat" where
  "tail2 lo hi bs =
     (case bs of
        b1 # b2 # _ \<Rightarrow> if lo \<le> b1 \<and> b1 \<le> hi \<and> contByte b2 then 3 else 0
      | _ \<Rightarrow> 0)"

definition tail3 :: "nat \<Rightarrow> nat \<Rightarrow> nat list \<Rightarrow> nat" where
  "tail3 lo hi bs =
     (case bs of
        b1 # b2 # b3 # _ \<Rightarrow>
          if lo \<le> b1 \<and> b1 \<le> hi \<and> contByte b2 \<and> contByte b3 then 4 else 0
      | _ \<Rightarrow> 0)"

fun runeLen :: "nat list \<Rightarrow> nat" where
  "runeLen [] = 0"
| "runeLen (b0 # bs) =
    (if b0 < 128 then 1
     else if b0 < 194 then 0
     else if b0 \<le> 223 then (case bs of b1 # _ \<Rightarrow> if contByte b1 then 2 else 0 | _ \<Rightarrow> 0)
     else if b0 = 224 then tail2 160 191 bs
     else if b0 = 237 then tail2 128 159 bs
     else if b0 \<le> 239 then tail2 128 191 bs
     else if b0 = 240 then tail3 144 191 bs
     else if b0 \<le> 243 then tail3 128 191 bs
     else if b0 = 244 then tail3 128 143 bs
     else 0)"

text \<open>
  \<open>coerceUTF8 k s\<close> copies the \<open>k\<close> bytes that remain of a sequence already found
  well-formed, then decodes the next one; a byte that starts no well-formed sequence is
  replaced by the three bytes of U+FFFD.
\<close>

fun coerceUTF8 :: "nat \<Rightarrow> string \<Rightarrow> string" where
  "coerceUTF8 k [] = []"
| "coerceUTF8 (Suc k) (c # cs) = c # coerceUTF8 k cs"
| "coerceUTF8 0 (c # cs) =
    (case runeLen (map of_char (c # cs)) of
       0 \<Rightarrow> [CHR 0xEF, CHR 0xBF, CHR 0xBD] @ coerceUTF8 0 cs
     | Suc k \<Rightarrow> c # coerceUTF8 k cs)"

definition toValidUTF8 :: "string \<Rightarrow> string" where
  "toValidUTF8 s = coerceUTF8 0 s"

text \<open>
  \<open>utf8.ValidString\<close>: the string consists of well-formed UTF-8 sequences only.
  \<open>validFrom k s\<close> skips the \<open>k\<close> bytes that remain of a sequence already found
  well-formed.
\<close>

fun validFrom :: "nat \<Rightarrow> string \<Rightarrow> bool" where
  "validFrom 0 [] = True"
| "validFrom (Suc k) [] = False"
| "validFrom (Suc k) (c # cs) = validFrom k cs"
| "validFrom 0 (c # cs) =
    (case runeLen (map of_char (c # cs)) of
       0 \<Rightarrow> False
     | Suc k \<Rightarrow> validFrom k cs)"

definition validUTF8 :: "string \<Rightarrow> bool" where
  "validUTF8 s = validFrom 0 s"

text \<open>
  \<open>json.Marshal\<close> fails on a channel and on a time whose \<open>MarshalJSON\<close> fails, anywhere in
  the value.
\<close>

fun marshals :: "golib \<Rightarrow> gvalue \<Rightarrow> bool" where
  "marshals L VChan = False"
| "marshals L (VTime t) = (Time_MarshalJSON L t \<noteq> None)"
| "marshals L (VMap kvs) = list_all (\<lambda>kv. marshals L (snd kv)) kvs"
| "marshals L (VSlice vs) = list_all (marshals L) vs"
| "marshals L v = True"

text \<open>
  \<open>json.Marshal\<close> writes the entries of a map sorted by key (bytewise), and
  \<open>json.Unmarshal\<close> into a struct handles the keys of the object in that order. A key
  belongs to the struct field whose tag it equals, or else equals after folding
  (\<open>foldName\<close> of \<open>encoding/json\<close>): ASCII letters are folded to upper case, and the
  two letters outside ASCII whose fold is an ASCII letter, U+017F (bytes C5 BF, folds to
  \<open>S\<close>) and U+212A (bytes E2 84 AA, folds to \<open>K\<close>), are folded to it. Every other rune
  folds to a rune outside ASCII; the model keeps its bytes, which decides equality with
  the folded tag in the same way, since every tag of this program is ASCII.
\<close>

fun foldName :: "nat \<Rightarrow> string \<Rightarrow> nat list" where
  "foldName k [] = []"
| "foldName (Suc k) (c # cs) = foldName k cs"
| "foldName 0 (c # cs) =
    (let b = (of_char c :: nat) in
     if b < 128 then (if 97 \<le> b \<and> b \<le> 122 then b - 32 else b) # foldName 0 cs
     else if b = 197 \<and> map of_char (take 1 cs) = [191 :: nat] then 83 # foldName (Suc 0) cs
     else if b = 226 \<and> map of_char (take 2 cs) = [132, 170 :: nat] then 75 # foldName (Suc (Suc 0)) cs
     else b # foldName 0 cs)"

fun keyLess :: "string \<Rightarrow> string \<Rightarrow> bool" where
  "keyLess [] [] = False"
| "keyLess [] (y # ys) = True"
| "keyLess (x # xs) [] = False"
| "keyLess (x # xs) (y # ys) =
     ((of_char x :: nat) < of_char y \<or> (x = y \<and> keyLess xs ys))"

fun insertKey :: "string \<times> gvalue \<Rightarrow> (string \<times> gvalue) list \<Rightarrow> (string \<times> gvalue) list" where
  "insertKey kv [] = [kv]"
| "insertKey kv (x # xs) =
     (if keyLess (fst kv) (fst x) then kv # x # xs else x # insertKey kv xs)"

definition sortKeys :: "(string \<times> gvalue) list \<Rightarrow> (string \<times> gvalue) list" where
  "sortKeys obj = foldr insertKey obj []"

text \<open>
  The entries of the map an association list stands for: of two entries with the same
  key the first is the one \<open>map_of\<close> reads.
\<close>

fun entries :: "(string \<times> gvalue) list \<Rightarrow> (string \<times> gvalue) list" where
  "entries [] = []"
| "entries (kv # kvs) = kv # entries (filter (\<lambda>x. fst x \<noteq> fst kv) kvs)"

text \<open>
  The values \<open>json.Unmarshal\<close> stores into the struct field with the given tag, in the
  order in which it stores them.
\<close>

definition assignments :: "string \<Rightarrow> (string \<times> gvalue) list \<Rightarrow> gvalue list" where
  "assignments tag obj =
     map snd (sortKeys (filter (\<lambda>kv. foldName 0 (fst kv) = foldName 0 tag) (entries obj)))"

text \<open>
  Storing into a field of the struct, which starts from the zero value: \<open>null\<close> leaves
  the field as it is; a value of the wrong JSON kind is an \<open>UnmarshalTypeError\<close> (\<open>None\<close>
  below), which makes the whole call return an error, whatever is stored afterwards; of
  several values for one field the last one stays.
\<close>

fun store_string :: "golib \<Rightarrow> gvalue list \<Rightarrow> string \<Rightarrow> string option" where
  "store_string L [] cur = Some cur"
| "store_string L (VNil # vs) cur = store_string L vs cur"
| "store_string L (VString s # vs) cur = store_string L vs (toValidUTF8 s)"
| "store_string L (VTime t # vs) cur =
     (case Time_MarshalJSON L t of None \<Rightarrow> None | Some s \<Rightarrow> store_string L vs s)"
| "store_string L (v # vs) cur = None"

fun store_int64 :: "gvalue list \<Rightarrow> int \<Rightarrow> int option" where
  "store_int64 [] cur = Some cur"
| "store_int64 (VNil # vs) cur = store_int64 vs cur"
| "store_int64 (VInt i # vs) cur =
     (if - (2 ^ 63) \<le> i \<and> i < 2 ^ 63 then store_int64 vs i else None)"
| "store_int64 (v # vs) cur = None"

definition field_string ::
    "golib \<Rightarrow> (string \<times> gvalue) list \<Rightarrow> string \<Rightarrow> string \<Rightarrow> string option" where
  "field_string L obj tag cur = store_string L (assignments tag obj) cur"

definition field_int64 :: "(string \<times> gvalue) list \<Rightarrow> string \<Rightarrow> int \<Rightarrow> int option" where
  "field_int64 obj tag cur = store_int64 (assignments tag obj) cur"

text \<open>
  \<open>json.Unmarshal\<close> first scans the whole text and rejects it when objects and arrays
  are nested more than 10000 deep.
\<close>

fun nesting :: "gvalue \<Rightarrow> nat" where
  "nesting (VMap kvs) = Suc (foldr (\<lambda>kv n. max (nesting (snd kv)) n) kvs 0)"
| "nesting (VSlice vs) = Suc (foldr (\<lambda>v n. max (nesting v) n) vs 0)"
| "nesting v = 0"

text \<open>The wire structs of the visa package (success and error response).\<close>

record visa_PaymentResponse =
  PaymentID :: string
  State :: string
  Value_Amount :: string
  Value_CurrencyCode :: string
  ProcessedAt :: int

record visa_PaymentError =
  ErrorType :: string
  Reason :: string
  Details_Code :: string

text \<open>The error struct of the mastercard package (pkg/providers/mastercard/types.go).\<close>

record mastercard_PaymentError =
  mc_ErrorCode :: string
  mc_Message :: string

text \<open>
  \<open>json.Unmarshal(responseJSON, &providerResponse)\<close> for each of the three structs, on
  the text \<open>json.Marshal\<close> produced from the envelope. A top-level \<open>null\<close> leaves the zero
  struct and is no error; a top-level value that is not an object is an error. An object
  stored into a field that is itself a struct (\<open>value\<close>, \<open>details\<close>) is decoded into
  what the field holds, so the objects of several keys of one field are merged.
\<close>

fun store_visa_Value :: "golib \<Rightarrow> gvalue list \<Rightarrow> string \<times> string \<Rightarrow> (string \<times> string) option" where
  "store_visa_Value L [] cur = Some cur"
| "store_visa_Value L (VNil # vs) cur = store_visa_Value L vs cur"
| "store_visa_Value L (VMap inner # vs) cur =
     (case (field_string L inner ''amount'' (fst cur),
            field_string L inner ''currency_code'' (snd cur)) of
        (Some a, Some c) \<Rightarrow> store_visa_Value L vs (a, c)
      | _ \<Rightarrow> None)"
| "store_visa_Value L (v # vs) cur = None"

definition unmarshal_visa_Value :: "golib \<Rightarrow> (string \<times> gvalue) list \<Rightarrow> (string \<times> string) option" where
  "unmarshal_visa_Value L obj = store_visa_Value L (assignments ''value'' obj) ([], [])"

definition unmarshal_visa_PaymentResponse :: "golib \<Rightarrow> gvalue \<Rightarrow> visa_PaymentResponse option" where
  "unmarshal_visa_PaymentResponse L v =
     (if nesting v > 10000 then None
      else case v of
        VNil \<Rightarrow> Some \<lparr>PaymentID = [], State = [], Value_Amount = [],
                       Value_CurrencyCode = [], ProcessedAt = 0\<rparr>
      | VMap obj \<Rightarrow>
          (case (field_string L obj ''payment_id'' [], field_string L obj ''state'' [],
                 unmarshal_visa_Value L obj, field_int64 obj ''processed_at'' 0) of
             (Some pid, Some st, Some (a, c), Some sec) \<Rightarrow>
               Some \<lparr>PaymentID = pid, State = st, Value_Amount = a,
                     Value_CurrencyCode = c, ProcessedAt = sec\<rparr>
           | _ \<Rightarrow> None)
      | _ \<Rightarrow> None)"

fun store_visa_Details :: "golib \<Rightarrow> gvalue list \<Rightarrow> string \<Rightarrow> string option" where
  "store_visa_Details L [] cur = Some cur"
| "store_visa_Details L (VNil # vs) cur = store_visa_Details L vs cur"
| "store_visa_Details L (VMap inner # vs) cur =
     (case field_string L inner ''code'' cur of
        Some c \<Rightarrow> store_visa_Details L vs c
      | None \<Rightarrow> None)"
| "store_visa_Details L (v # vs) cur = None"

definition unmarshal_visa_Details :: "golib \<Rightarrow> (string \<times> gvalue) list \<Rightarrow> string option" where
  "unmarshal_visa_Details L obj = store_visa_Details L (assignments ''details'' obj) []"

definition unmarshal_visa_PaymentError :: "golib \<Rightarrow> gvalue \<Rightarrow> visa_PaymentError option" where
  "unmarshal_visa_PaymentError L v =
     (if nesting v > 10000 then None
      else case v of
        VNil \<Rightarrow> Some \<lparr>ErrorType = [], Reason = [], Details_Code = []\<rparr>
      | VMap obj \<Rightarrow>
          (case (field_string L obj ''error_type'' [], field_string L obj ''reason'' [],
                 unmarshal_visa_Details L obj) of
             (Some t, Some r, Some c) \<Rightarrow> Some \<lparr>ErrorType = t, Reason = r, Details_Code = c\<rparr>
           | _ \<Rightarrow> None)
      | _ \<Rightarrow> None)"

definition unmarshal_mastercard_PaymentError :: "golib \<Rightarrow> gvalue \<Rightarrow> mastercard_PaymentError option" where
  "unmarshal_mastercard_PaymentError L v =
     (if nesting v > 10000 then None
      else case v of
        VNil \<Rightarrow> Some \<lparr>mc_ErrorCode = [], mc_Message = []\<rparr>
      | VMap obj \<Rightarrow>
          (case (field_string L obj ''error_code'' [], field_string L obj ''message'' []) of
             (Some c, Some m) \<Rightarrow> Some \<lparr>mc_ErrorCode = c, mc_Message = m\<rparr>
           | _ \<Rightarrow> None)
      | _ \<Rightarrow> None)"

section \<open>Request validation of the two adapters\<close>

text \<open>
  \<open>VisaPaymentProvider.ValidateRequest\<close> (pkg/providers/visa/provider.go, lines 25-60).
  \<open>len\<close> of a Go string is its number of bytes, the length of the \<open>char\<close> list.
\<close>

definition visa_ValidateRequest :: "PaymentRequest \<Rightarrow> error option" where
  "visa_ValidateRequest request =
    (if float64_le (PaymentRequest.Amount request) 0 then
       Some ''amount must be greater than 0''
     else if float64_gt (PaymentRequest.Amount request) 1000000 then
       Some ''amount exceeds maximum limit of 1,000,000''
     else if PaymentRequest.Currency request = [] then
       Some ''currency is required''
     else if CardNumber request = [] then
       Some ''card number is required''
     else if length (CardNumber request) < 13 \<or> length (CardNumber request) > 19 then
       Some ''card number must be between 13 and 19 digits''
     else if ExpiryMonth request = [] \<or> ExpiryYear request = [] then
       Some ''expiry month and year are required''
     else if CVV request = [] then
       Some ''CVV is required''
     else if length (CVV request) < 3 \<or> length (CVV request) > 4 then
       Some ''CVV must be 3 or 4 digits''
     else None)"

text \<open>
  \<open>MasterCardPaymentProvider.ValidateRequest\<close> (mastercard provider, lines 26-61): the
  same chain of checks, written out again as the source does.
\<close>

definition mastercard_ValidateRequest :: "PaymentRequest \<Rightarrow> error option" where
  "mastercard_ValidateRequest request =
    (if float64_le (PaymentRequest.Amount request) 0 then
       Some ''amount must be greater than 0''
     else if float64_gt (PaymentRequest.Amount request) 1000000 then
       Some ''amount exceeds maximum limit of 1,000,000''
     else if PaymentRequest.Currency request = [] then
       Some ''currency is required''
     else if CardNumber request = [] then
       Some ''card number is required''
     else if length (CardNumber request) < 13 \<or> length (CardNumber request) > 19 then
       Some ''card number must be between 13 and 19 digits''
     else if ExpiryMonth request = [] \<or> ExpiryYear request = [] then
       Some ''expiry month and year are required''
     else if CVV request = [] then
       Some ''CVV is required''
     else if length (CVV request) < 3 \<or> length (CVV request) > 4 then
       Some ''CVV must be 3 or 4 digits''
     else None)"

section \<open>The visa adapter (pkg/providers/visa/provider.go)\<close>

text \<open>
  \<open>ProcessPayment\<close> (lines 62-88) returns the pair (success envelope, error envelope), one
  of them \<open>nil\<close>. The comparison \<open>rand.Float64() < 0.1\<close> is between \<open>float64\<close> values; the
  constant is the \<open>float64\<close> nearest to one tenth, and a \<open>float64\<close> lies below it exactly
  when its value lies below one tenth.
\<close>

definition visa_ProcessPayment :: "golib \<Rightarrow> env \<Rightarrow> PaymentRequest \<Rightarrow> gvalue \<times> gvalue" where
  "visa_ProcessPayment L e request =
     (if draw e < 1 / 10 then
        (VNil,
         VMap [(''error_type'', VString ''PAYMENT_FAILED''),
               (''reason'', VString ''Card declined''),
               (''details'', VMap [(''code'', VString ''EE000011'')])])
      else
        (VMap [(''payment_id'', VString ''PPAAYY--778899--XXYYZZ''),
               (''state'', VString ''SUCCESS''),
               (''value'',
                  VMap [(''amount'', VString (FormatFloat L (PaymentRequest.Amount request))),
                        (''currency_code'', VString (PaymentRequest.Currency request))]),
               (''processed_at'', VInt 1677587921)],
         VNil))"

text \<open>
  \<open>ParseSuccessResponse\<close> (lines 90-113). The error of \<open>strconv.ParseFloat\<close> is discarded
  (\<open>parsedAmount, _ := ...\<close>), its value is used.
\<close>

definition visa_ParseSuccessResponse ::
    "golib \<Rightarrow> gvalue \<Rightarrow> (PaymentResponse option \<times> error option) outcome" where
  "visa_ParseSuccessResponse L response =
     (if \<not> marshals L response then
        Returned (None, Some ''error marshalling response'')
      else case unmarshal_visa_PaymentResponse L response of
        None \<Rightarrow> Returned (None, Some ''invalid response type'')
      | Some providerResponse \<Rightarrow>
          (let parsedAmount = fst (ParseFloat L (Value_Amount providerResponse));
               parsedTime = time_Unix (ProcessedAt providerResponse) 0
           in Returned
                (Some \<lparr>PaymentResponse.Success = True,
                       TransactionID = PaymentID providerResponse,
                       Status = State providerResponse,
                       Amount = parsedAmount,
                       Currency = Value_CurrencyCode providerResponse,
                       Date = Some parsedTime\<rparr>,
                 None)))"

text \<open>\<open>ParseErrorResponse\<close> (lines 115-132).\<close>

definition visa_ParseErrorResponse ::
    "golib \<Rightarrow> gvalue \<Rightarrow> (PaymentError option \<times> error option) outcome" where
  "visa_ParseErrorResponse L response =
     (if \<not> marshals L response then
        Returned (None, Some ''error marshalling error response'')
      else case unmarshal_visa_PaymentError L response of
        None \<Rightarrow> Returned (None, Some ''invalid response error type'')
      | Some providerError \<Rightarrow>
          Returned
            (Some \<lparr>Success = False,
                   ErrorCode = Details_Code providerError,
                   ErrorMessage = ''ErrorType:'' @ ErrorType providerError @
                                  '' :: ErrorReason: '' @ Reason providerError\<rparr>,
             None))"

section \<open>The mastercard adapter\<close>

text \<open>\<open>ProcessPayment\<close> (lines 63-83).\<close>

definition mastercard_ProcessPayment :: "golib \<Rightarrow> env \<Rightarrow> PaymentRequest \<Rightarrow> gvalue \<times> gvalue" where
  "mastercard_ProcessPayment L e request =
     (if draw e < 1 / 10 then
        (VNil,
         VMap [(''error_code'', VString ''MC0001''),
               (''message'', VString ''Insufficient funds'')])
      else
        (VMap [(''transaction_id'', VString ''TX1234567890''),
               (''status'', VString ''APPROVED''),
               (''amount'', VString (FormatFloat L (PaymentRequest.Amount request))),
               (''currency'', VString (PaymentRequest.Currency request)),
               (''timestamp'', VTime (now e))],
         VNil))"

text \<open>
  A type assertion \<open>x.(string)\<close> on a map entry: the entry of an absent key is \<open>nil\<close>.
  The single-value form panics when the value is not a string; the two-value form
  reports it in \<open>ok\<close>.
\<close>

definition entry :: "(string \<times> gvalue) list \<Rightarrow> string \<Rightarrow> gvalue" where
  "entry data key = (case map_of data key of None \<Rightarrow> VNil | Some v \<Rightarrow> v)"

fun assertString :: "gvalue \<Rightarrow> string outcome" where
  "assertString (VString s) = Returned s"
| "assertString v = Panic"

text \<open>
  \<open>ParseSuccessResponse\<close> (lines 85-113). The fields of the struct literal are
  evaluated in the order written, so the first failing assertion panics.
\<close>

definition mastercard_ParseSuccessResponse ::
    "golib \<Rightarrow> gvalue \<Rightarrow> (PaymentResponse option \<times> error option) outcome" where
  "mastercard_ParseSuccessResponse L response =
     (case response of
        VMap data \<Rightarrow>
          (case entry data ''amount'' of
             VString amountStr \<Rightarrow>
               (case ParseFloat L amountStr of
                  (amount, Some err) \<Rightarrow>
                    Returned (None, Some (''failed to convert '' @ [CHR 0x27] @ ''amount'' @
                                          [CHR 0x27] @ '' to float64: '' @ err))
                | (amount, None) \<Rightarrow>
                    (let dt = (case entry data ''timestamp'' of VTime t \<Rightarrow> t | _ \<Rightarrow> zeroTime)
                     in case assertString (entry data ''transaction_id'') of
                          Panic \<Rightarrow> Panic
                        | Returned tid \<Rightarrow>
                     (case assertString (entry data ''status'') of
                          Panic \<Rightarrow> Panic
                        | Returned st \<Rightarrow>
                     (case assertString (entry data ''currency'') of
                          Panic \<Rightarrow> Panic
                        | Returned cur \<Rightarrow>
                            Returned
                              (Some \<lparr>PaymentResponse.Success = True,
                                     TransactionID = tid,
                                     Status = st,
                                     Amount = amount,
                                     Currency = cur,
                                     Date = Some dt\<rparr>,
                               None)))))
           | v \<Rightarrow>
               Returned (None, Some (''expected '' @ [CHR 0x27] @ ''amount'' @ [CHR 0x27] @
                                     '' field to be a string, got '' @ typeName v)))
      | _ \<Rightarrow>
          Returned (None, Some (''expected map[string]interface{}, got '' @ typeName response)))"

text \<open>\<open>ParseErrorResponse\<close> (lines 115-132).\<close>

definition mastercard_ParseErrorResponse ::
    "golib \<Rightarrow> gvalue \<Rightarrow> (PaymentError option \<times> error option) outcome" where
  "mastercard_ParseErrorResponse L response =
     (if \<not> marshals L response then
        Returned (None, Some ''error marshalling error response'')
      else case unmarshal_mastercard_PaymentError L response of
        None \<Rightarrow> Returned (None, Some ''invalid response error type'')
      | Some providerError \<Rightarrow>
          Returned
            (Some \<lparr>Success = False,
                   ErrorCode = mc_ErrorCode providerError,
                   ErrorMessage = mc_Message providerError\<rparr>,
             None))"

section \<open>The Provider interface and the two adapters as providers\<close>

record Provider =
  GetName :: string
  ValidateRequest :: "PaymentRequest \<Rightarrow> error option"
  ProcessPayment :: "env \<Rightarrow> PaymentRequest \<Rightarrow> gvalue \<times> gvalue"
  ParseSuccessResponse :: "gvalue \<Rightarrow> (PaymentResponse option \<times> error option) outcome"
  ParseErrorResponse :: "gvalue \<Rightarrow> (PaymentError option \<times> error option) outcome"

definition GetNewVisaPaymentProvider :: "golib \<Rightarrow> Provider" where
  "GetNewVisaPaymentProvider L =
     \<lparr>GetName = ''visa'',
      ValidateRequest = visa_ValidateRequest,
      ProcessPayment = visa_ProcessPayment L,
      ParseSuccessResponse = visa_ParseSuccessResponse L,
      ParseErrorResponse = visa_ParseErrorResponse L\<rparr>"

definition GetNewMasterCardPaymentProvider :: "golib \<Rightarrow> Provider" where
  "GetNewMasterCardPaymentProvider L =
     \<lparr>GetName = ''mastercard'',
      ValidateRequest = mastercard_ValidateRequest,
      ProcessPayment = mastercard_ProcessPayment L,
      ParseSuccessResponse = mastercard_ParseSuccessResponse L,
      ParseErrorResponse = mastercard_ParseErrorResponse L\<rparr>"

section \<open>The payment processor (pkg/processor/processor.go)\<close>

record PaymentProcessor =
  providers :: "string \<rightharpoonup> Provider"

text \<open>\<open>registerProviders\<close> (lines 23-27): the loop stores each provider under its name.\<close>

fun registerProviders :: "PaymentProcessor \<Rightarrow> Provider list \<Rightarrow> PaymentProcessor" where
  "registerProviders p [] = p"
| "registerProviders p (provider # rest) =
     registerProviders (p\<lparr>providers := (providers p)(GetName provider \<mapsto> provider)\<rparr>) rest"

definition NewPaymentProcessor :: "Provider list \<Rightarrow> PaymentProcessor" where
  "NewPaymentProcessor paymentProviders =
     registerProviders \<lparr>providers = Map.empty\<rparr> paymentProviders"

text \<open>\<open>getProvider\<close> (lines 29-36).\<close>

definition getProvider :: "PaymentProcessor \<Rightarrow> string \<Rightarrow> error + Provider" where
  "getProvider p requiredProvider =
     (case providers p requiredProvider of
        None \<Rightarrow> Inl (''invalid provider name provided: '' @ [CHR 0x27] @ requiredProvider @
                     [CHR 0x27])
      | Some pr \<Rightarrow> Inr pr)"

text \<open>
  \<open>PaymentProcessor.ProcessPayment\<close> (lines 38-87). The result is the pair of pointers
  the Go function returns (\<open>nil\<close> is \<open>None\<close>); a panic inside a parser is not recovered
  and reaches the caller.
\<close>

definition processor_ProcessPayment ::
    "PaymentProcessor \<Rightarrow> env \<Rightarrow> PaymentRequest \<Rightarrow>
       (PaymentResponse option \<times> PaymentError option) outcome" where
  "processor_ProcessPayment p e paymentReqest =
     (case getProvider p (Mode paymentReqest) of
        Inl err \<Rightarrow>
          Returned (None, Some \<lparr>Success = False, ErrorCode = ''INVALID_PROVIDER'',
                                ErrorMessage = err\<rparr>)
      | Inr paymentProvider \<Rightarrow>
          (case ValidateRequest paymentProvider paymentReqest of
             Some validationError \<Rightarrow>
               Returned (None, Some \<lparr>Success = False, ErrorCode = ''INVALID_REQUEST'',
                                     ErrorMessage = validationError\<rparr>)
           | None \<Rightarrow>
               (case ProcessPayment paymentProvider e paymentReqest of
                  (processResponse, processError) \<Rightarrow>
                    if processError \<noteq> VNil then
                      (case ParseErrorResponse paymentProvider processError of
                         Panic \<Rightarrow> Panic
                       | Returned (parseErrorRes, Some parseErroErr) \<Rightarrow>
                           Returned (None, Some \<lparr>Success = False,
                                                 ErrorCode = ''PROCESSING_ERROR'',
                                                 ErrorMessage = parseErroErr\<rparr>)
                       | Returned (parseErrorRes, None) \<Rightarrow> Returned (None, parseErrorRes))
                    else
                      (case ParseSuccessResponse paymentProvider processResponse of
                         Panic \<Rightarrow> Panic
                       | Returned (successResponse, Some successParseError) \<Rightarrow>
                           Returned (None, Some \<lparr>Success = False,
                                                 ErrorCode = ''PARSING_ERROR'',
                                                 ErrorMessage = successParseError\<rparr>)
                       | Returned (successResponse, None) \<Rightarrow>
                           Returned (successResponse, None)))))"

section \<open>The wiring of main.go\<close>

text \<open>
  \<open>main\<close> builds the processor from the mastercard and the visa provider, in this
  order, and submits one visa request.
\<close>

definition main_processor :: "golib \<Rightarrow> PaymentProcessor" where
  "main_processor L =
     NewPaymentProcessor [GetNewMasterCardPaymentProvider L, GetNewVisaPaymentProvider L]"

definition main_request :: PaymentRequest where
  "main_request =
     \<lparr>Mode = ''visa'', Amount = Finite 100, Currency = ''USD'',
      CardNumber = ''4111111111111111'', ExpiryMonth = ''12'', ExpiryYear = ''2025'',
      CVV = ''123''\<rparr>"

section \<open>A sample of the library functions\<close>

text \<open>
  To run the model on concrete inputs the three library functions need values. The
  sample below agrees with Go on the inputs it is used on: whole numbers of magnitude
  below \<open>2^53\<close> are printed and read as their decimal digits, a text that is not a
  sequence of digits is reported as a syntax error with value \<open>0\<close>, and an instant is
  printed in RFC 3339 form as a process whose local time zone is UTC prints it (years
  outside 0..9999 fail). It is not a model of the library on other inputs; it is used
  where a statement is evaluated at a concrete input, and every statement about a
  variable of type \<open>golib\<close> holds whatever the library computes.
\<close>

fun digits :: "nat \<Rightarrow> string" where
  "digits n =
     (if n < 10 then [''0123456789'' ! n]
      else digits (n div 10) @ [''0123456789'' ! (n mod 10)])"

declare digits.simps [simp del]

fun digitsValue :: "nat \<Rightarrow> string \<Rightarrow> nat option" where
  "digitsValue acc [] = Some acc"
| "digitsValue acc (c # cs) =
     (if 48 \<le> (of_char c :: nat) \<and> (of_char c :: nat) \<le> 57
      then digitsValue (10 * acc + (of_char c - 48)) cs
      else None)"

definition sample_FormatFloat :: "float64 \<Rightarrow> string" where
  "sample_FormatFloat x =
     (case x of
        Finite r \<Rightarrow> (if r < 0 then ''-'' else []) @ digits (nat \<lfloor>\<bar>r\<bar>\<rfloor>)
      | PosInf \<Rightarrow> ''+Inf''
      | NegInf \<Rightarrow> ''-Inf''
      | NaN \<Rightarrow> ''NaN'')"

definition sample_ParseFloat :: "string \<Rightarrow> float64 \<times> error option" where
  "sample_ParseFloat s =
     (case (if s = [] then None else digitsValue 0 s) of
        Some n \<Rightarrow> (Finite (real n), None)
      | None \<Rightarrow> (Finite 0, Some (''strconv.ParseFloat: parsing '' @ [CHR 0x22] @ s @
                                   [CHR 0x22] @ '': invalid syntax'')))"

definition pad :: "nat \<Rightarrow> string \<Rightarrow> string" where
  "pad n s = replicate (n - length s) (CHR ''0'') @ s"

definition civil :: "int \<Rightarrow> int \<times> int \<times> int" where
  "civil days =
    (let z = days + 719468; era = z div 146097; doe = z mod 146097;
         yoe = (doe - doe div 1460 + doe div 36524 - doe div 146096) div 365;
         doy = doe - (365 * yoe + yoe div 4 - yoe div 100);
         mp = (5 * doy + 2) div 153;
         d = doy - (153 * mp + 2) div 5 + 1;
         m = (if mp < 10 then mp + 3 else mp - 9);
         y = yoe + era * 400 + (if m \<le> 2 then 1 else 0)
     in (y, m, d))"

definition fraction :: "nat \<Rightarrow> string" where
  "fraction ns =
     (if ns = 0 then []
      else ''.'' @ rev (dropWhile (\<lambda>c. c = CHR ''0'') (rev (pad 9 (digits ns)))))"

definition sample_Time_MarshalJSON :: "time \<Rightarrow> string option" where
  "sample_Time_MarshalJSON t =
     (case civil (unixSec t div 86400) of
        (y, m, d) \<Rightarrow>
          if y < 0 \<or> y > 9999 then None
          else let r = unixSec t mod 86400 in
            Some (pad 4 (digits (nat y)) @ ''-'' @ pad 2 (digits (nat m)) @ ''-'' @
                  pad 2 (digits (nat d)) @ ''T'' @ pad 2 (digits (nat (r div 3600))) @ '':'' @
                  pad 2 (digits (nat (r mod 3600 div 60))) @ '':'' @
                  pad 2 (digits (nat (r mod 60))) @ fraction (nanos t) @ ''Z''))"

definition golib_sample :: golib where
  "golib_sample =
     \<lparr>FormatFloat = sample_FormatFloat,
      ParseFloat = sample_ParseFloat,
      Time_MarshalJSON = sample_Time_MarshalJSON\<rparr>"

section \<open>The validation contract\<close>

text \<open>
  The validation contract as the specification words it: a fixed, ordered list of checks,
  each with its failure reason, of which the first violated one is reported.
\<close>

definition validation_checks :: "((PaymentRequest \<Rightarrow> bool) \<times> error) list" where
  "validation_checks =
    [(\<lambda>r. float64_le (PaymentRequest.Amount r) 0, ''amount must be greater than 0''),
     (\<lambda>r. float64_gt (PaymentRequest.Amount r) 1000000,
        ''amount exceeds maximum limit of 1,000,000''),
     (\<lambda>r. PaymentRequest.Currency r = [], ''currency is required''),
     (\<lambda>r. CardNumber r = [], ''card number is required''),
     (\<lambda>r. length (CardNumber r) < 13 \<or> length (CardNumber r) > 19,
        ''card number must be between 13 and 19 digits''),
     (\<lambda>r. ExpiryMonth r = [] \<or> ExpiryYear r = [], ''expiry month and year are required''),
     (\<lambda>r. CVV r = [], ''CVV is required''),
     (\<lambda>r. length (CVV r) < 3 \<or> length (CVV r) > 4, ''CVV must be 3 or 4 digits'')]"

fun first_violation :: "((PaymentRequest \<Rightarrow> bool) \<times> error) list \<Rightarrow> PaymentRequest \<Rightarrow> error option" where
  "first_violation [] r = None"
| "first_violation ((violated, reason) # cs) r =
     (if violated r then Some reason else first_violation cs r)"

definition violations :: "((PaymentRequest \<Rightarrow> bool) \<times> error) list \<Rightarrow> PaymentRequest \<Rightarrow> error list" where
  "violations cs r = map snd (filter (\<lambda>c. fst c r) cs)"

section \<open>Theorems\<close>

subsection \<open>Evaluation of the fixed texts\<close>

text \<open>
  The texts the adapters put into their envelopes are ASCII, so the JSON round trip
  leaves them as they are.
\<close>

lemma utf8_payment_id: "toValidUTF8 ''PPAAYY--778899--XXYYZZ'' = ''PPAAYY--778899--XXYYZZ''"
  by (simp add: toValidUTF8_def)

lemma utf8_success: "toValidUTF8 ''SUCCESS'' = ''SUCCESS''"
  by (simp add: toValidUTF8_def)

lemma utf8_payment_failed: "toValidUTF8 ''PAYMENT_FAILED'' = ''PAYMENT_FAILED''"
  by (simp add: toValidUTF8_def)

lemma utf8_card_declined: "toValidUTF8 ''Card declined'' = ''Card declined''"
  by (simp add: toValidUTF8_def)

lemma utf8_ee: "toValidUTF8 ''EE000011'' = ''EE000011''"
  by (simp add: toValidUTF8_def)

lemma utf8_mc: "toValidUTF8 ''MC0001'' = ''MC0001''"
  by (simp add: toValidUTF8_def)

lemma utf8_insufficient: "toValidUTF8 ''Insufficient funds'' = ''Insufficient funds''"
  by (simp add: toValidUTF8_def)

lemmas utf8_literals = utf8_payment_id utf8_success utf8_payment_failed utf8_card_declined
  utf8_ee utf8_mc utf8_insufficient

lemma utf8_100: "toValidUTF8 ''100'' = ''100''"
  by (simp add: toValidUTF8_def)

lemma utf8_USD: "toValidUTF8 ''USD'' = ''USD''"
  by (simp add: toValidUTF8_def)

lemma utf8_FF: "toValidUTF8 [CHR 0xFF] = [CHR 0xEF, CHR 0xBF, CHR 0xBD]"
  by (simp add: toValidUTF8_def)

text \<open>
  The sample library on the texts used below.
\<close>

lemma sample_FormatFloat_100: "sample_FormatFloat (Finite 100) = ''100''"
  by (simp add: sample_FormatFloat_def digits.simps)

lemma sample_ParseFloat_100: "sample_ParseFloat ''100'' = (Finite 100, None)"
  by (simp add: sample_ParseFloat_def)

lemma sample_ParseFloat_10: "sample_ParseFloat ''10'' = (Finite 10, None)"
  by (simp add: sample_ParseFloat_def)

subsection \<open>The parsers on the envelopes the simulated calls produce\<close>

lemma visa_error_envelope_parsed:
  "visa_ParseErrorResponse L
     (VMap [(''error_type'', VString ''PAYMENT_FAILED''),
            (''reason'', VString ''Card declined''),
            (''details'', VMap [(''code'', VString ''EE000011'')])]) =
   Returned (Some \<lparr>Success = False, ErrorCode = ''EE000011'',
                    ErrorMessage = ''ErrorType:PAYMENT_FAILED :: ErrorReason: Card declined''\<rparr>,
             None)"
  by (simp add: visa_ParseErrorResponse_def unmarshal_visa_PaymentError_def
        unmarshal_visa_Details_def field_string_def assignments_def sortKeys_def utf8_literals)

lemma visa_success_envelope_parsed:
  "visa_ParseSuccessResponse L
     (VMap [(''payment_id'', VString ''PPAAYY--778899--XXYYZZ''),
            (''state'', VString ''SUCCESS''),
            (''value'', VMap [(''amount'', VString a), (''currency_code'', VString c)]),
            (''processed_at'', VInt 1677587921)]) =
   Returned (Some \<lparr>PaymentResponse.Success = True,
                    TransactionID = ''PPAAYY--778899--XXYYZZ'',
                    Status = ''SUCCESS'',
                    Amount = fst (ParseFloat L (toValidUTF8 a)),
                    Currency = toValidUTF8 c,
                    Date = Some (Time 1677587921 0)\<rparr>,
             None)"
  by (simp add: visa_ParseSuccessResponse_def unmarshal_visa_PaymentResponse_def
        unmarshal_visa_Value_def field_string_def field_int64_def assignments_def sortKeys_def time_Unix_def utf8_literals)

lemma mastercard_error_envelope_parsed:
  "mastercard_ParseErrorResponse L
     (VMap [(''error_code'', VString ''MC0001''), (''message'', VString ''Insufficient funds'')]) =
   Returned (Some \<lparr>Success = False, ErrorCode = ''MC0001'',
                    ErrorMessage = ''Insufficient funds''\<rparr>,
             None)"
  by (simp add: mastercard_ParseErrorResponse_def unmarshal_mastercard_PaymentError_def
        field_string_def assignments_def sortKeys_def utf8_literals)

lemma mastercard_success_envelope_parsed:
  "mastercard_ParseSuccessResponse L
     (VMap [(''transaction_id'', VString ''TX1234567890''),
            (''status'', VString ''APPROVED''),
            (''amount'', VString a),
            (''currency'', VString c),
            (''timestamp'', VTime t)]) =
   (case ParseFloat L a of
      (amount, Some err) \<Rightarrow>
        Returned (None, Some (''failed to convert '' @ [CHR 0x27] @ ''amount'' @ [CHR 0x27] @
                              '' to float64: '' @ err))
    | (amount, None) \<Rightarrow>
        Returned (Some \<lparr>PaymentResponse.Success = True,
                         TransactionID = ''TX1234567890'',
                         Status = ''APPROVED'',
                         Amount = amount,
                         Currency = c,
                         Date = Some t\<rparr>,
                  None))"
  by (simp add: mastercard_ParseSuccessResponse_def entry_def split: prod.splits option.splits)

subsection \<open>The pipeline after resolution\<close>

text \<open>
  Once the registry has resolved the mode to one of the two adapters, the rest of
  \<open>ProcessPayment\<close> is a function of the validation verdict, the random draw and, for
  mastercard, the result of parsing the amount text.
\<close>

lemma visa_pipeline:
  assumes "getProvider P (Mode req) = Inr (GetNewVisaPaymentProvider L)"
  shows "processor_ProcessPayment P e req =
     (case visa_ValidateRequest req of
        Some reason \<Rightarrow>
          Returned (None, Some \<lparr>Success = False, ErrorCode = ''INVALID_REQUEST'',
                                ErrorMessage = reason\<rparr>)
      | None \<Rightarrow>
          if draw e < 1 / 10 then
            Returned (None, Some \<lparr>Success = False, ErrorCode = ''EE000011'',
                ErrorMessage = ''ErrorType:PAYMENT_FAILED :: ErrorReason: Card declined''\<rparr>)
          else
            Returned (Some \<lparr>PaymentResponse.Success = True,
                    TransactionID = ''PPAAYY--778899--XXYYZZ'',
                    Status = ''SUCCESS'',
                    Amount = fst (ParseFloat L (toValidUTF8 (FormatFloat L (PaymentRequest.Amount req)))),
                    Currency = toValidUTF8 (PaymentRequest.Currency req),
                    Date = Some (Time 1677587921 0)\<rparr>,
             None))"
  using assms
  by (simp add: processor_ProcessPayment_def GetNewVisaPaymentProvider_def visa_ProcessPayment_def
        visa_error_envelope_parsed visa_success_envelope_parsed split: option.splits)

lemma mastercard_pipeline:
  assumes "getProvider P (Mode req) = Inr (GetNewMasterCardPaymentProvider L)"
  shows "processor_ProcessPayment P e req =
     (case mastercard_ValidateRequest req of
        Some reason \<Rightarrow>
          Returned (None, Some \<lparr>Success = False, ErrorCode = ''INVALID_REQUEST'',
                                ErrorMessage = reason\<rparr>)
      | None \<Rightarrow>
          if draw e < 1 / 10 then
            Returned (None, Some \<lparr>Success = False, ErrorCode = ''MC0001'',
                ErrorMessage = ''Insufficient funds''\<rparr>)
          else
            (case ParseFloat L (FormatFloat L (PaymentRequest.Amount req)) of
               (amount, Some err) \<Rightarrow>
                 Returned (None, Some \<lparr>Success = False, ErrorCode = ''PARSING_ERROR'',
                    ErrorMessage = ''failed to convert '' @ [CHR 0x27] @ ''amount'' @ [CHR 0x27] @
                              '' to float64: '' @ err\<rparr>)
             | (amount, None) \<Rightarrow>
                 Returned (Some \<lparr>PaymentResponse.Success = True,
                         TransactionID = ''TX1234567890'',
                         Status = ''APPROVED'',
                         Amount = amount,
                         Currency = PaymentRequest.Currency req,
                         Date = Some (now e)\<rparr>,
                  None)))"
  using assms
  by (simp add: processor_ProcessPayment_def GetNewMasterCardPaymentProvider_def
        mastercard_ProcessPayment_def mastercard_error_envelope_parsed
        mastercard_success_envelope_parsed split: option.splits prod.splits)

lemma visa_pipeline_error_codes:
  assumes g: "getProvider P (Mode req) = Inr (GetNewVisaPaymentProvider L)"
    and res: "processor_ProcessPayment P e req = Returned (r, Some err)"
  shows "ErrorCode err = ''INVALID_REQUEST'' \<or> ErrorCode err = ''EE000011''"
proof -
  from res have "Returned (r, Some err) = processor_ProcessPayment P e req" by simp
  also note visa_pipeline [OF g, of e]
  finally show ?thesis
    by (cases "visa_ValidateRequest req"; cases "draw e < 1 / 10") auto
qed

lemma mastercard_pipeline_error_codes:
  assumes g: "getProvider P (Mode req) = Inr (GetNewMasterCardPaymentProvider L)"
    and res: "processor_ProcessPayment P e req = Returned (r, Some err)"
  shows "ErrorCode err = ''INVALID_REQUEST'' \<or> ErrorCode err = ''MC0001'' \<or>
         ErrorCode err = ''PARSING_ERROR''"
proof -
  from res have "Returned (r, Some err) = processor_ProcessPayment P e req" by simp
  also note mastercard_pipeline [OF g, of e]
  finally show ?thesis
    by (cases "mastercard_ValidateRequest req"; cases "draw e < 1 / 10";
        cases "ParseFloat L (FormatFloat L (PaymentRequest.Amount req))";
        cases "snd (ParseFloat L (FormatFloat L (PaymentRequest.Amount req)))") auto
qed

subsection \<open>The registry\<close>

lemma providers_registerProviders:
  "providers (registerProviders p ps) n =
     (if filter (\<lambda>q. GetName q = n) ps = [] then providers p n
      else Some (last (filter (\<lambda>q. GetName q = n) ps)))"
  by (induction ps arbitrary: p) auto

lemma getProvider_New:
  "getProvider (NewPaymentProcessor ps) n =
     (if filter (\<lambda>q. GetName q = n) ps = []
      then Inl (''invalid provider name provided: '' @ [CHR 0x27] @ n @ [CHR 0x27])
      else Inr (last (filter (\<lambda>q. GetName q = n) ps)))"
  by (simp add: getProvider_def NewPaymentProcessor_def providers_registerProviders)

lemma getProvider_Inr_mem:
  assumes "getProvider (NewPaymentProcessor ps) n = Inr pr"
  shows "pr \<in> set ps \<and> GetName pr = n"
proof -
  from assms have ne: "filter (\<lambda>q. GetName q = n) ps \<noteq> []"
    and pr: "pr = last (filter (\<lambda>q. GetName q = n) ps)"
    by (auto simp: getProvider_New split: if_splits)
  from ne have "last (filter (\<lambda>q. GetName q = n) ps) \<in> set (filter (\<lambda>q. GetName q = n) ps)"
    by (rule last_in_set)
  then show ?thesis using pr by simp
qed

lemma getProvider_Inl_iff:
  "(\<exists>msg. getProvider (NewPaymentProcessor ps) n = Inl msg) \<longleftrightarrow> (\<forall>q \<in> set ps. GetName q \<noteq> n)"
  by (simp add: getProvider_New filter_empty_conv)

lemma main_getProvider_visa:
  "getProvider (main_processor L) ''visa'' = Inr (GetNewVisaPaymentProvider L)"
  by (simp add: main_processor_def getProvider_New GetNewVisaPaymentProvider_def
        GetNewMasterCardPaymentProvider_def)

lemma main_getProvider_mastercard:
  "getProvider (main_processor L) ''mastercard'' = Inr (GetNewMasterCardPaymentProvider L)"
  by (simp add: main_processor_def getProvider_New GetNewVisaPaymentProvider_def
        GetNewMasterCardPaymentProvider_def)

subsection \<open>Exactly one result (C1)\<close>

lemma response_only_through_all_stages:
  assumes "processor_ProcessPayment P e req = Returned (Some r, err)"
  shows "\<exists>pr. getProvider P (Mode req) = Inr pr \<and> ValidateRequest pr req = None \<and>
           snd (ProcessPayment pr e req) = VNil \<and>
           ParseSuccessResponse pr (fst (ProcessPayment pr e req)) = Returned (Some r, None)"
  using assms
  by (auto simp: processor_ProcessPayment_def
        split: sum.splits option.splits prod.splits if_splits outcome.splits)

lemma reference_exactly_one:
  assumes "set ps \<subseteq> {GetNewMasterCardPaymentProvider L, GetNewVisaPaymentProvider L}"
  shows "\<exists>res err. processor_ProcessPayment (NewPaymentProcessor ps) e req = Returned (res, err) \<and>
           (res = None) \<noteq> (err = None)"
proof (cases "getProvider (NewPaymentProcessor ps) (Mode req)")
  case (Inl msg)
  then show ?thesis by (simp add: processor_ProcessPayment_def)
next
  case (Inr pr)
  then have "pr \<in> set ps" by (simp add: getProvider_Inr_mem)
  with assms consider "pr = GetNewMasterCardPaymentProvider L" | "pr = GetNewVisaPaymentProvider L"
    by auto
  then show ?thesis
  proof cases
    case 1
    with Inr have "getProvider (NewPaymentProcessor ps) (Mode req) = Inr (GetNewMasterCardPaymentProvider L)"
      by simp
    then show ?thesis
      by (simp add: mastercard_pipeline split: option.splits prod.splits)
  next
    case 2
    with Inr have "getProvider (NewPaymentProcessor ps) (Mode req) = Inr (GetNewVisaPaymentProvider L)"
      by simp
    then show ?thesis
      by (simp add: visa_pipeline split: option.splits)
  qed
qed

text \<open>
  C1: for every request, every random draw and every clock reading, \<open>ProcessPayment\<close>
  of a processor built from the reference adapters returns (it does not panic), and of
  the two results exactly one is non-nil. A response is returned only when the provider
  was resolved, its validation passed, its call signalled success (the error envelope is
  nil) and its success parser returned that response without error.
\<close>

theorem process_payment_exactly_one_result:
  assumes "set ps \<subseteq> {GetNewMasterCardPaymentProvider L, GetNewVisaPaymentProvider L}"
  shows "\<exists>res err.
           processor_ProcessPayment (NewPaymentProcessor ps) e req = Returned (res, err) \<and>
           (res = None) \<noteq> (err = None) \<and>
           (res \<noteq> None \<longrightarrow>
              (\<exists>pr. getProvider (NewPaymentProcessor ps) (Mode req) = Inr pr \<and>
                    ValidateRequest pr req = None \<and>
                    snd (ProcessPayment pr e req) = VNil \<and>
                    ParseSuccessResponse pr (fst (ProcessPayment pr e req)) =
                      Returned (res, None)))"
proof -
  from reference_exactly_one [OF assms] obtain res err where
    r: "processor_ProcessPayment (NewPaymentProcessor ps) e req = Returned (res, err)" and
    one: "(res = None) \<noteq> (err = None)"
    by blast
  have "\<exists>pr. getProvider (NewPaymentProcessor ps) (Mode req) = Inr pr \<and>
             ValidateRequest pr req = None \<and>
             snd (ProcessPayment pr e req) = VNil \<and>
             ParseSuccessResponse pr (fst (ProcessPayment pr e req)) = Returned (res, None)"
    if "res \<noteq> None"
  proof -
    from that obtain x where "res = Some x" by auto
    with r response_only_through_all_stages [of "NewPaymentProcessor ps" e req x err]
    show ?thesis by simp
  qed
  with r one show ?thesis by blast
qed

text \<open>
  The processor of main.go on its own request, with a draw that makes the simulated call
  succeed: the hypothesis holds and the response is returned.
\<close>

theorem process_payment_exactly_one_result_witness:
  "(\<exists>res err.
      processor_ProcessPayment (main_processor golib_sample) \<lparr>draw = 1 / 2, now = Time 0 0\<rparr>
        main_request = Returned (res, err) \<and>
      (res = None) \<noteq> (err = None) \<and>
      (res \<noteq> None \<longrightarrow>
         (\<exists>pr. getProvider (main_processor golib_sample) (Mode main_request) = Inr pr \<and>
               ValidateRequest pr main_request = None \<and>
               snd (ProcessPayment pr \<lparr>draw = 1 / 2, now = Time 0 0\<rparr> main_request) = VNil \<and>
               ParseSuccessResponse pr
                 (fst (ProcessPayment pr \<lparr>draw = 1 / 2, now = Time 0 0\<rparr> main_request)) =
                 Returned (res, None)))) \<and>
   processor_ProcessPayment (main_processor golib_sample) \<lparr>draw = 1 / 2, now = Time 0 0\<rparr>
     main_request =
   Returned (Some \<lparr>PaymentResponse.Success = True,
                    TransactionID = ''PPAAYY--778899--XXYYZZ'', Status = ''SUCCESS'',
                    Amount = Finite 100, Currency = ''USD'',
                    Date = Some (Time 1677587921 0)\<rparr>, None)"
proof -
  have sub: "set [GetNewMasterCardPaymentProvider golib_sample, GetNewVisaPaymentProvider golib_sample]
      \<subseteq> {GetNewMasterCardPaymentProvider golib_sample, GetNewVisaPaymentProvider golib_sample}"
    by simp
  have "getProvider (main_processor golib_sample) (Mode main_request) =
          Inr (GetNewVisaPaymentProvider golib_sample)"
    by (simp add: main_request_def main_getProvider_visa)
  then have ev: "processor_ProcessPayment (main_processor golib_sample)
       \<lparr>draw = 1 / 2, now = Time 0 0\<rparr> main_request =
     Returned (Some \<lparr>PaymentResponse.Success = True,
                    TransactionID = ''PPAAYY--778899--XXYYZZ'', Status = ''SUCCESS'',
                    Amount = Finite 100, Currency = ''USD'',
                    Date = Some (Time 1677587921 0)\<rparr>, None)"
    by (simp add: visa_pipeline main_request_def visa_ValidateRequest_def golib_sample_def
          sample_FormatFloat_100 sample_ParseFloat_100 utf8_100 utf8_USD)
  show ?thesis
    using process_payment_exactly_one_result [OF sub, of "\<lparr>draw = 1 / 2, now = Time 0 0\<rparr>" main_request]
      ev
    unfolding main_processor_def by simp
qed

subsection \<open>A parser that panics (C2)\<close>

text \<open>
  The three parsers that decode through JSON return on every envelope of the model.
\<close>

lemma json_parsers_return:
  "visa_ParseSuccessResponse L v \<noteq> Panic"
  "visa_ParseErrorResponse L v \<noteq> Panic"
  "mastercard_ParseErrorResponse L v \<noteq> Panic"
  by (simp_all add: visa_ParseSuccessResponse_def visa_ParseErrorResponse_def
        mastercard_ParseErrorResponse_def Let_def split: option.splits)

text \<open>
  C2: the claim that no envelope makes a parser panic fails for the mastercard success
  parser. On a map that holds a string under \<open>amount\<close> and nothing under
  \<open>transaction_id\<close>, the parser panics whenever the amount text parses, and returns an
  error otherwise; with the text \<open>10\<close> it panics. (\<open>ProcessPayment\<close> itself never
  panics with the reference adapters, as C1 shows.)
\<close>

theorem mastercard_parse_success_panics:
  "mastercard_ParseSuccessResponse golib_sample (VMap [(''amount'', VString ''10'')]) = Panic \<and>
   mastercard_ParseSuccessResponse L (VMap [(''amount'', VString s)]) =
     (case ParseFloat L s of
        (amount, Some err) \<Rightarrow>
          Returned (None, Some (''failed to convert '' @ [CHR 0x27] @ ''amount'' @ [CHR 0x27] @
                                '' to float64: '' @ err))
      | (amount, None) \<Rightarrow> Panic)"
  by (simp add: mastercard_ParseSuccessResponse_def entry_def golib_sample_def
        sample_ParseFloat_10 split: prod.splits option.splits)

subsection \<open>Missing and malformed fields (C3)\<close>

text \<open>
  C3: the claim that a missing or malformed required field makes the success parser fail
  does not hold. The visa parser turns the empty map into a response whose transaction
  id, status and currency are empty, and keeps whatever value \<open>ParseFloat\<close> returns for
  an amount text that is no number (its error is discarded). The mastercard parser, on a
  map without \<open>status\<close>, panics instead of returning an error.
\<close>

theorem parse_success_defaults_missing_fields:
  "visa_ParseSuccessResponse L (VMap []) =
     Returned (Some \<lparr>PaymentResponse.Success = True, TransactionID = [], Status = [],
                      Amount = fst (ParseFloat L []), Currency = [],
                      Date = Some (Time 0 0)\<rparr>, None) \<and>
   visa_ParseSuccessResponse L
     (VMap [(''payment_id'', VString ''PPAAYY--778899--XXYYZZ''),
            (''state'', VString ''SUCCESS''),
            (''value'', VMap [(''amount'', VString ''abc''), (''currency_code'', VString ''USD'')]),
            (''processed_at'', VInt 1677587921)]) =
     Returned (Some \<lparr>PaymentResponse.Success = True,
                      TransactionID = ''PPAAYY--778899--XXYYZZ'', Status = ''SUCCESS'',
                      Amount = fst (ParseFloat L ''abc''), Currency = ''USD'',
                      Date = Some (Time 1677587921 0)\<rparr>, None) \<and>
   mastercard_ParseSuccessResponse L
     (VMap [(''transaction_id'', VString ''TX1234567890''),
            (''amount'', VString s),
            (''currency'', VString ''USD'')]) =
     (case ParseFloat L s of
        (amount, Some err) \<Rightarrow>
          Returned (None, Some (''failed to convert '' @ [CHR 0x27] @ ''amount'' @ [CHR 0x27] @
                                '' to float64: '' @ err))
      | (amount, None) \<Rightarrow> Panic)"
proof -
  have abc: "toValidUTF8 ''abc'' = ''abc''"
    by (simp add: toValidUTF8_def)
  have a: "visa_ParseSuccessResponse L (VMap []) =
     Returned (Some \<lparr>PaymentResponse.Success = True, TransactionID = [], Status = [],
                      Amount = fst (ParseFloat L []), Currency = [],
                      Date = Some (Time 0 0)\<rparr>, None)"
    by (simp add: visa_ParseSuccessResponse_def unmarshal_visa_PaymentResponse_def
          unmarshal_visa_Value_def field_string_def field_int64_def assignments_def sortKeys_def time_Unix_def)
  have c: "mastercard_ParseSuccessResponse L
     (VMap [(''transaction_id'', VString ''TX1234567890''),
            (''amount'', VString s),
            (''currency'', VString ''USD'')]) =
     (case ParseFloat L s of
        (amount, Some err) \<Rightarrow>
          Returned (None, Some (''failed to convert '' @ [CHR 0x27] @ ''amount'' @ [CHR 0x27] @
                                '' to float64: '' @ err))
      | (amount, None) \<Rightarrow> Panic)"
    by (simp add: mastercard_ParseSuccessResponse_def entry_def split: prod.splits option.splits)
  show ?thesis
    by (simp only: a c visa_success_envelope_parsed abc utf8_USD simp_thms)
qed

subsection \<open>The error code of the resolve stage (C4)\<close>

lemma unregistered_mode_result:
  assumes "\<forall>p \<in> set ps. GetName p \<noteq> Mode req"
  shows "processor_ProcessPayment (NewPaymentProcessor ps) e req =
     Returned (None, Some \<lparr>Success = False, ErrorCode = ''INVALID_PROVIDER'',
                           ErrorMessage = ''invalid provider name provided: '' @ [CHR 0x27] @
                                          Mode req @ [CHR 0x27]\<rparr>)"
proof -
  from assms have "filter (\<lambda>q. GetName q = Mode req) ps = []"
    by (simp add: filter_empty_conv)
  then show ?thesis
    by (simp add: processor_ProcessPayment_def getProvider_New)
qed

lemma reference_invalid_provider_resolve_only:
  assumes sub: "set qs \<subseteq> {GetNewMasterCardPaymentProvider L, GetNewVisaPaymentProvider L}"
    and res: "processor_ProcessPayment (NewPaymentProcessor qs) e req = Returned (r, Some err)"
    and code: "ErrorCode err = ''INVALID_PROVIDER''"
  shows "\<forall>p \<in> set qs. GetName p \<noteq> Mode req"
proof (cases "getProvider (NewPaymentProcessor qs) (Mode req)")
  case (Inl msg)
  then show ?thesis using getProvider_Inl_iff [of qs "Mode req"] by blast
next
  case (Inr pr)
  then have "pr \<in> set qs" by (simp add: getProvider_Inr_mem)
  with sub consider "pr = GetNewMasterCardPaymentProvider L" | "pr = GetNewVisaPaymentProvider L"
    by auto
  then have False
  proof cases
    case 1
    with Inr have "getProvider (NewPaymentProcessor qs) (Mode req) =
        Inr (GetNewMasterCardPaymentProvider L)" by simp
    from mastercard_pipeline_error_codes [OF this res] code show False
      by simp
  next
    case 2
    with Inr have "getProvider (NewPaymentProcessor qs) (Mode req) =
        Inr (GetNewVisaPaymentProvider L)" by simp
    from visa_pipeline_error_codes [OF this res] code show False
      by simp
  qed
  then show ?thesis ..
qed

text \<open>
  C4: for every list of providers and every request whose mode is the name of none of
  them, \<open>ProcessPayment\<close> returns the error with code \<open>INVALID_PROVIDER\<close>; and with the
  reference adapters an error with this code is returned only in that case, so no other
  stage produces it.
\<close>

theorem invalid_provider_at_resolve_only:
  "((\<forall>p \<in> set ps. GetName p \<noteq> Mode req) \<longrightarrow>
      processor_ProcessPayment (NewPaymentProcessor ps) e req =
        Returned (None, Some \<lparr>Success = False, ErrorCode = ''INVALID_PROVIDER'',
                              ErrorMessage = ''invalid provider name provided: '' @ [CHR 0x27] @
                                             Mode req @ [CHR 0x27]\<rparr>)) \<and>
   (set qs \<subseteq> {GetNewMasterCardPaymentProvider L, GetNewVisaPaymentProvider L} \<and>
    processor_ProcessPayment (NewPaymentProcessor qs) e2 req2 = Returned (r, Some err) \<and>
    ErrorCode err = ''INVALID_PROVIDER'' \<longrightarrow>
      (\<forall>p \<in> set qs. GetName p \<noteq> Mode req2))"
  using unregistered_mode_result [of ps req e]
    reference_invalid_provider_resolve_only [of qs L e2 req2 r err]
  by blast

text \<open>
  The processor of main.go on a request for the unregistered mode \<open>amex\<close>.
\<close>

theorem invalid_provider_at_resolve_only_witness:
  "processor_ProcessPayment (main_processor golib_sample) \<lparr>draw = 1 / 2, now = Time 0 0\<rparr>
     (main_request\<lparr>Mode := ''amex''\<rparr>) =
   Returned (None, Some \<lparr>Success = False, ErrorCode = ''INVALID_PROVIDER'',
                         ErrorMessage = ''invalid provider name provided: '' @ [CHR 0x27] @
                                        ''amex'' @ [CHR 0x27]\<rparr>) \<and>
   ''amex'' \<notin> GetName ` set [GetNewMasterCardPaymentProvider golib_sample,
                              GetNewVisaPaymentProvider golib_sample]"
proof -
  let ?ps = "[GetNewMasterCardPaymentProvider golib_sample, GetNewVisaPaymentProvider golib_sample]"
  let ?req = "main_request\<lparr>Mode := ''amex''\<rparr>"
  let ?e = "\<lparr>draw = 1 / 2, now = Time 0 0\<rparr>"
  let ?err = "\<lparr>Success = False, ErrorCode = ''INVALID_PROVIDER'',
               ErrorMessage = ''invalid provider name provided: '' @ [CHR 0x27] @
                              ''amex'' @ [CHR 0x27]\<rparr>"
  have m: "Mode ?req = ''amex''"
    by simp
  note inst = invalid_provider_at_resolve_only
    [of ?ps ?req ?e ?ps golib_sample ?e ?req None ?err, unfolded m]
  have unreg: "\<forall>p \<in> set ?ps. GetName p \<noteq> ''amex''"
    by (simp add: GetNewMasterCardPaymentProvider_def GetNewVisaPaymentProvider_def)
  from inst [THEN conjunct1] unreg
  have r: "processor_ProcessPayment (NewPaymentProcessor ?ps) ?e ?req = Returned (None, Some ?err)"
    by (rule mp)
  have sub: "set ?ps \<subseteq> {GetNewMasterCardPaymentProvider golib_sample,
                          GetNewVisaPaymentProvider golib_sample}"
    by simp
  have code: "ErrorCode ?err = ''INVALID_PROVIDER''"
    by simp
  from sub r code
  have "set ?ps \<subseteq> {GetNewMasterCardPaymentProvider golib_sample,
                       GetNewVisaPaymentProvider golib_sample} \<and>
        processor_ProcessPayment (NewPaymentProcessor ?ps) ?e ?req = Returned (None, Some ?err) \<and>
        ErrorCode ?err = ''INVALID_PROVIDER''"
    by (intro conjI)
  with inst [THEN conjunct2] have "\<forall>p \<in> set ?ps. GetName p \<noteq> ''amex''"
    by (rule mp)
  then have "''amex'' \<notin> GetName ` set ?ps"
    by auto
  with r show ?thesis
    unfolding main_processor_def by (intro conjI)
qed

subsection \<open>The error code of the validate stage (C5)\<close>

lemma validate_rejects:
  assumes "float64_le (PaymentRequest.Amount req) 0 \<or>
           length (CardNumber req) < 13 \<or> 19 < length (CardNumber req) \<or>
           length (CVV req) < 3 \<or> 4 < length (CVV req)"
  shows "\<exists>reason. visa_ValidateRequest req = Some reason"
    and "\<exists>reason. mastercard_ValidateRequest req = Some reason"
  using assms
  by (auto simp: visa_ValidateRequest_def mastercard_ValidateRequest_def)

text \<open>
  C5: for a processor built from the reference adapters and a request whose mode is
  registered, an amount that is not positive, a card number shorter than 13 or longer
  than 19 bytes, or a CVV shorter than 3 or longer than 4 bytes makes \<open>ProcessPayment\<close>
  return an error with code \<open>INVALID_REQUEST\<close>.
\<close>

theorem invalid_request_error_code:
  assumes sub: "set ps \<subseteq> {GetNewMasterCardPaymentProvider L, GetNewVisaPaymentProvider L}"
    and reg: "\<exists>p \<in> set ps. GetName p = Mode req"
    and bad: "float64_le (PaymentRequest.Amount req) 0 \<or>
              length (CardNumber req) < 13 \<or> 19 < length (CardNumber req) \<or>
              length (CVV req) < 3 \<or> 4 < length (CVV req)"
  shows "\<exists>reason. processor_ProcessPayment (NewPaymentProcessor ps) e req =
           Returned (None, Some \<lparr>Success = False, ErrorCode = ''INVALID_REQUEST'',
                                 ErrorMessage = reason\<rparr>)"
proof (cases "getProvider (NewPaymentProcessor ps) (Mode req)")
  case (Inl msg)
  with reg show ?thesis using getProvider_Inl_iff [of ps "Mode req"] by blast
next
  case (Inr pr)
  then have "pr \<in> set ps" by (simp add: getProvider_Inr_mem)
  with sub consider "pr = GetNewMasterCardPaymentProvider L" | "pr = GetNewVisaPaymentProvider L"
    by auto
  then show ?thesis
  proof cases
    case 1
    with Inr have g: "getProvider (NewPaymentProcessor ps) (Mode req) =
        Inr (GetNewMasterCardPaymentProvider L)" by simp
    from validate_rejects(2) [OF bad] obtain reason where
      "mastercard_ValidateRequest req = Some reason" ..
    then show ?thesis by (simp add: mastercard_pipeline [OF g])
  next
    case 2
    with Inr have g: "getProvider (NewPaymentProcessor ps) (Mode req) =
        Inr (GetNewVisaPaymentProvider L)" by simp
    from validate_rejects(1) [OF bad] obtain reason where
      "visa_ValidateRequest req = Some reason" ..
    then show ?thesis by (simp add: visa_pipeline [OF g])
  qed
qed

text \<open>
  A mastercard request with amount 0 and a visa request with a two-digit CVV.
\<close>

theorem invalid_request_error_code_witness:
  "processor_ProcessPayment (main_processor golib_sample) \<lparr>draw = 1 / 2, now = Time 0 0\<rparr>
     (main_request\<lparr>Mode := ''mastercard'', PaymentRequest.Amount := Finite 0\<rparr>) =
   Returned (None, Some \<lparr>Success = False, ErrorCode = ''INVALID_REQUEST'',
                         ErrorMessage = ''amount must be greater than 0''\<rparr>) \<and>
   processor_ProcessPayment (main_processor golib_sample) \<lparr>draw = 1 / 2, now = Time 0 0\<rparr>
     (main_request\<lparr>CVV := ''12''\<rparr>) =
   Returned (None, Some \<lparr>Success = False, ErrorCode = ''INVALID_REQUEST'',
                         ErrorMessage = ''CVV must be 3 or 4 digits''\<rparr>)"
proof -
  let ?ps = "[GetNewMasterCardPaymentProvider golib_sample, GetNewVisaPaymentProvider golib_sample]"
  let ?e = "\<lparr>draw = 1 / 2, now = Time 0 0\<rparr>"
  let ?r1 = "main_request\<lparr>Mode := ''mastercard'', PaymentRequest.Amount := Finite 0\<rparr>"
  let ?r2 = "main_request\<lparr>CVV := ''12''\<rparr>"
  have sub: "set ?ps \<subseteq> {GetNewMasterCardPaymentProvider golib_sample,
                          GetNewVisaPaymentProvider golib_sample}"
    by simp
  have reg1: "\<exists>p \<in> set ?ps. GetName p = Mode ?r1"
    by (simp add: GetNewMasterCardPaymentProvider_def)
  have reg2: "\<exists>p \<in> set ?ps. GetName p = Mode ?r2"
    by (simp add: GetNewVisaPaymentProvider_def main_request_def)
  have bad1: "float64_le (PaymentRequest.Amount ?r1) 0 \<or>
              length (CardNumber ?r1) < 13 \<or> 19 < length (CardNumber ?r1) \<or>
              length (CVV ?r1) < 3 \<or> 4 < length (CVV ?r1)"
    by simp
  have bad2: "float64_le (PaymentRequest.Amount ?r2) 0 \<or>
              length (CardNumber ?r2) < 13 \<or> 19 < length (CardNumber ?r2) \<or>
              length (CVV ?r2) < 3 \<or> 4 < length (CVV ?r2)"
    by simp
  from invalid_request_error_code [OF sub reg1 bad1, of ?e] obtain m1 where
    m1: "processor_ProcessPayment (NewPaymentProcessor ?ps) ?e ?r1 =
           Returned (None, Some \<lparr>Success = False, ErrorCode = ''INVALID_REQUEST'',
                                 ErrorMessage = m1\<rparr>)" ..
  from invalid_request_error_code [OF sub reg2 bad2, of ?e] obtain m2 where
    m2: "processor_ProcessPayment (NewPaymentProcessor ?ps) ?e ?r2 =
           Returned (None, Some \<lparr>Success = False, ErrorCode = ''INVALID_REQUEST'',
                                 ErrorMessage = m2\<rparr>)" ..
  have g1: "getProvider (main_processor golib_sample) (Mode ?r1) =
      Inr (GetNewMasterCardPaymentProvider golib_sample)"
    by (simp add: main_getProvider_mastercard)
  have g2: "getProvider (main_processor golib_sample) (Mode ?r2) =
      Inr (GetNewVisaPaymentProvider golib_sample)"
    by (simp add: main_getProvider_visa main_request_def)
  have "m1 = ''amount must be greater than 0''"
    using m1 mastercard_pipeline [OF g1, of ?e]
    by (simp add: main_processor_def mastercard_ValidateRequest_def main_request_def)
  moreover have "m2 = ''CVV must be 3 or 4 digits''"
    using m2 visa_pipeline [OF g2, of ?e]
    by (simp add: main_processor_def visa_ValidateRequest_def main_request_def)
  ultimately show ?thesis using m1 m2 by (simp add: main_processor_def)
qed

subsection \<open>Currency through the visa wire format (C6)\<close>

text \<open>
  What each adapter returns for the amount and the currency of a request, whenever it
  returns a response: mastercard hands the currency through unchanged; visa hands it
  through the JSON round trip, which leaves ASCII text as it is. The amount is in both
  cases what \<open>ParseFloat\<close> reads from the text \<open>FormatFloat\<close> wrote.
\<close>

lemma coerceUTF8_ascii:
  "\<forall>c \<in> set s. (of_char c :: nat) < 128 \<Longrightarrow> coerceUTF8 0 s = s"
  by (induction s) auto

lemma toValidUTF8_ascii:
  "\<forall>c \<in> set s. (of_char c :: nat) < 128 \<Longrightarrow> toValidUTF8 s = s"
  by (simp add: toValidUTF8_def coerceUTF8_ascii)

lemma mastercard_wire_round_trip:
  assumes g: "getProvider P (Mode req) = Inr (GetNewMasterCardPaymentProvider L)"
    and res: "processor_ProcessPayment P e req = Returned (Some resp, err)"
  shows "PaymentResponse.Currency resp = PaymentRequest.Currency req \<and>
         PaymentResponse.Amount resp =
           fst (ParseFloat L (FormatFloat L (PaymentRequest.Amount req)))"
proof -
  from res have "Returned (Some resp, err) = processor_ProcessPayment P e req" by simp
  also note mastercard_pipeline [OF g, of e]
  finally show ?thesis
    by (cases "mastercard_ValidateRequest req"; cases "draw e < 1 / 10";
        cases "ParseFloat L (FormatFloat L (PaymentRequest.Amount req))";
        cases "snd (ParseFloat L (FormatFloat L (PaymentRequest.Amount req)))") auto
qed

lemma visa_wire_round_trip:
  assumes g: "getProvider P (Mode req) = Inr (GetNewVisaPaymentProvider L)"
    and res: "processor_ProcessPayment P e req = Returned (Some resp, err)"
  shows "PaymentResponse.Currency resp = toValidUTF8 (PaymentRequest.Currency req) \<and>
         PaymentResponse.Amount resp =
           fst (ParseFloat L (toValidUTF8 (FormatFloat L (PaymentRequest.Amount req))))"
proof -
  from res have "Returned (Some resp, err) = processor_ProcessPayment P e req" by simp
  also note visa_pipeline [OF g, of e]
  finally show ?thesis
    by (cases "visa_ValidateRequest req"; cases "draw e < 1 / 10") auto
qed

text \<open>
  C6: the claim that the returned currency equals the submitted one fails for the visa
  adapter. The request of main.go with the one-byte currency \<open>0xFF\<close> passes validation;
  with a draw that makes the call succeed, the response carries the three bytes of
  U+FFFD as currency, because the success envelope is re-encoded as JSON before it is
  read.
\<close>

theorem visa_currency_not_preserved:
  "processor_ProcessPayment (main_processor L) \<lparr>draw = 1 / 2, now = t\<rparr>
     (main_request\<lparr>PaymentRequest.Currency := [CHR 0xFF]\<rparr>) =
   Returned (Some \<lparr>PaymentResponse.Success = True,
                    TransactionID = ''PPAAYY--778899--XXYYZZ'', Status = ''SUCCESS'',
                    Amount = fst (ParseFloat L (toValidUTF8 (FormatFloat L (Finite 100)))),
                    Currency = [CHR 0xEF, CHR 0xBF, CHR 0xBD],
                    Date = Some (Time 1677587921 0)\<rparr>, None) \<and>
   visa_ValidateRequest (main_request\<lparr>PaymentRequest.Currency := [CHR 0xFF]\<rparr>) = None"
proof -
  have "getProvider (main_processor L)
          (Mode (main_request\<lparr>PaymentRequest.Currency := [CHR 0xFF]\<rparr>)) =
        Inr (GetNewVisaPaymentProvider L)"
    by (simp add: main_request_def main_getProvider_visa)
  then show ?thesis
    by (simp add: visa_pipeline main_request_def visa_ValidateRequest_def utf8_FF)
qed

subsection \<open>The visa error mapping (C7)\<close>

text \<open>
  A string that \<open>utf8.ValidString\<close> accepts goes through the JSON round trip
  unchanged.
\<close>

lemma coerceUTF8_valid: "validFrom k s \<Longrightarrow> coerceUTF8 k s = s"
proof (induction k s rule: coerceUTF8.induct)
  case (1 k)
  show ?case by simp
next
  case (2 k c cs)
  then show ?case by simp
next
  case (3 c cs)
  show ?case
  proof (cases "runeLen (map of_char (c # cs))")
    case 0
    with "3.prems" show ?thesis
      by (simp del: runeLen.simps list.map)
  next
    case (Suc k)
    with "3.prems" have "validFrom k cs"
      by (simp del: runeLen.simps list.map)
    with Suc "3.IH"(2) show ?thesis
      by (simp del: runeLen.simps list.map)
  qed
qed

lemma toValidUTF8_valid: "validUTF8 s \<Longrightarrow> toValidUTF8 s = s"
  by (simp add: validUTF8_def toValidUTF8_def coerceUTF8_valid)

text \<open>
  The visa error parser on an envelope of the nested shape, for any three texts: each
  arrives as JSON carries it.
\<close>

lemma visa_nested_envelope_parsed:
  "visa_ParseErrorResponse L
     (VMap [(''error_type'', VString ty), (''reason'', VString rs),
            (''details'', VMap [(''code'', VString cd)])]) =
   Returned (Some \<lparr>Success = False, ErrorCode = toValidUTF8 cd,
                    ErrorMessage = ''ErrorType:'' @ toValidUTF8 ty @
                                   '' :: ErrorReason: '' @ toValidUTF8 rs\<rparr>,
             None)"
  by (simp add: visa_ParseErrorResponse_def unmarshal_visa_PaymentError_def
        unmarshal_visa_Details_def field_string_def assignments_def sortKeys_def)

text \<open>
  C7: the visa error parser maps the envelope of the specification to the error code
  \<open>EE000011\<close> and the message \<open>ErrorType:PAYMENT_FAILED :: ErrorReason: Card declined\<close>;
  and in general it maps an envelope of the nested shape whose type, reason and
  \<open>details.code\<close> are valid UTF-8 to the error whose code is \<open>details.code\<close> and whose
  message is \<open>ErrorType:<type> :: ErrorReason: <reason>\<close>.
\<close>

theorem visa_parse_error_mapping:
  "visa_ParseErrorResponse L
     (VMap [(''error_type'', VString ''PAYMENT_FAILED''),
            (''reason'', VString ''Card declined''),
            (''details'', VMap [(''code'', VString ''EE000011'')])]) =
   Returned (Some \<lparr>Success = False, ErrorCode = ''EE000011'',
                    ErrorMessage = ''ErrorType:PAYMENT_FAILED :: ErrorReason: Card declined''\<rparr>,
             None) \<and>
   (validUTF8 ty \<and> validUTF8 rs \<and> validUTF8 cd \<longrightarrow>
      visa_ParseErrorResponse L
        (VMap [(''error_type'', VString ty), (''reason'', VString rs),
               (''details'', VMap [(''code'', VString cd)])]) =
      Returned (Some \<lparr>Success = False, ErrorCode = cd,
                       ErrorMessage = ''ErrorType:'' @ ty @ '' :: ErrorReason: '' @ rs\<rparr>,
                None))"
  by (simp add: visa_error_envelope_parsed visa_nested_envelope_parsed toValidUTF8_valid
        utf8_literals)

text \<open>
  The three texts of the specification's envelope are valid UTF-8, and the general part
  gives its error.
\<close>

theorem visa_parse_error_mapping_witness:
  "validUTF8 ''PAYMENT_FAILED'' \<and> validUTF8 ''Card declined'' \<and> validUTF8 ''EE000011'' \<and>
   visa_ParseErrorResponse golib_sample
     (VMap [(''error_type'', VString ''PAYMENT_FAILED''),
            (''reason'', VString ''Card declined''),
            (''details'', VMap [(''code'', VString ''EE000011'')])]) =
     Returned (Some \<lparr>Success = False, ErrorCode = ''EE000011'',
                      ErrorMessage = ''ErrorType:'' @ ''PAYMENT_FAILED'' @
                                     '' :: ErrorReason: '' @ ''Card declined''\<rparr>,
               None)"
proof -
  have v: "validUTF8 ''PAYMENT_FAILED'' \<and> validUTF8 ''Card declined'' \<and> validUTF8 ''EE000011''"
    by (simp add: validUTF8_def)
  from visa_parse_error_mapping
    [of golib_sample "''PAYMENT_FAILED''" "''Card declined''" "''EE000011''", THEN conjunct2] v
  have "visa_ParseErrorResponse golib_sample
     (VMap [(''error_type'', VString ''PAYMENT_FAILED''),
            (''reason'', VString ''Card declined''),
            (''details'', VMap [(''code'', VString ''EE000011'')])]) =
     Returned (Some \<lparr>Success = False, ErrorCode = ''EE000011'',
                      ErrorMessage = ''ErrorType:'' @ ''PAYMENT_FAILED'' @
                                     '' :: ErrorReason: '' @ ''Card declined''\<rparr>,
               None)"
    by (rule mp)
  with v show ?thesis by (intro conjI) (simp_all only: simp_thms)
qed

text \<open>
  Without the restriction to valid UTF-8 the general part fails: when \<open>details.code\<close>
  is the single byte \<open>0xFF\<close>, the error code returned is not that byte but the three
  bytes of U+FFFD.
\<close>

theorem visa_parse_error_mapping_counterexample:
  "visa_ParseErrorResponse golib_sample
     (VMap [(''error_type'', VString ''PAYMENT_FAILED''),
            (''reason'', VString ''Card declined''),
            (''details'', VMap [(''code'', VString [CHR 0xFF])])]) =
     Returned (Some \<lparr>Success = False, ErrorCode = [CHR 0xEF, CHR 0xBF, CHR 0xBD],
                      ErrorMessage = ''ErrorType:PAYMENT_FAILED :: ErrorReason: Card declined''\<rparr>,
               None) \<and>
   visa_ParseErrorResponse golib_sample
     (VMap [(''error_type'', VString ''PAYMENT_FAILED''),
            (''reason'', VString ''Card declined''),
            (''details'', VMap [(''code'', VString [CHR 0xFF])])]) \<noteq>
     Returned (Some \<lparr>Success = False, ErrorCode = [CHR 0xFF],
                      ErrorMessage = ''ErrorType:PAYMENT_FAILED :: ErrorReason: Card declined''\<rparr>,
               None)"
  by (simp add: visa_nested_envelope_parsed utf8_FF utf8_literals)

subsection \<open>The simulated failure rates (C8)\<close>

text \<open>
  C8: with the random number as input \<open>draw\<close>, the mastercard call returns an error
  envelope exactly when \<open>draw < 0.10\<close>, as claimed. The visa call does so exactly when
  \<open>draw < 0.10\<close> as well, not \<open>0.15\<close>: at \<open>draw = 0.125\<close> it returns a success envelope.
\<close>

theorem simulated_failure_thresholds:
  "(snd (mastercard_ProcessPayment L e req) \<noteq> VNil) = (draw e < 1 / 10) \<and>
   (fst (mastercard_ProcessPayment L e req) = VNil) = (draw e < 1 / 10) \<and>
   (snd (visa_ProcessPayment L e req) \<noteq> VNil) = (draw e < 1 / 10) \<and>
   (fst (visa_ProcessPayment L e req) = VNil) = (draw e < 1 / 10) \<and>
   snd (visa_ProcessPayment L \<lparr>draw = 1 / 8, now = t\<rparr> req) = VNil"
  by (simp add: mastercard_ProcessPayment_def visa_ProcessPayment_def)

subsection \<open>Name collisions in the registry (C9)\<close>

text \<open>
  C9: when the list of adapters given to the constructor is \<open>xs @ p # ys\<close> and no adapter
  after \<open>p\<close> has the name of \<open>p\<close>, the registry resolves that name to \<open>p\<close>, whatever
  adapters of the same name \<open>xs\<close> holds: the last registered adapter wins, and
  construction and resolution raise no error.
\<close>

theorem registry_last_registered_wins:
  assumes "\<forall>q \<in> set ys. GetName q \<noteq> GetName p"
  shows "getProvider (NewPaymentProcessor (xs @ p # ys)) (GetName p) = Inr p"
proof -
  from assms have "filter (\<lambda>q. GetName q = GetName p) ys = []"
    by (simp add: filter_empty_conv)
  then have "filter (\<lambda>q. GetName q = GetName p) (xs @ p # ys) =
      filter (\<lambda>q. GetName q = GetName p) xs @ [p]"
    by simp
  then show ?thesis
    by (simp add: getProvider_New)
qed

text \<open>
  Two different adapters named \<open>visa\<close>: in either order the registry resolves the name
  to the second.
\<close>

theorem registry_last_registered_wins_witness:
  "getProvider
     (NewPaymentProcessor
        [GetNewVisaPaymentProvider golib_sample,
         (GetNewMasterCardPaymentProvider golib_sample)\<lparr>GetName := ''visa''\<rparr>]) ''visa'' =
   Inr ((GetNewMasterCardPaymentProvider golib_sample)\<lparr>GetName := ''visa''\<rparr>) \<and>
   getProvider
     (NewPaymentProcessor
        [(GetNewMasterCardPaymentProvider golib_sample)\<lparr>GetName := ''visa''\<rparr>,
         GetNewVisaPaymentProvider golib_sample]) ''visa'' =
   Inr (GetNewVisaPaymentProvider golib_sample) \<and>
   ParseErrorResponse (GetNewVisaPaymentProvider golib_sample) VNil \<noteq>
   ParseErrorResponse ((GetNewMasterCardPaymentProvider golib_sample)\<lparr>GetName := ''visa''\<rparr>) VNil"
proof -
  let ?A = "GetNewVisaPaymentProvider golib_sample"
  let ?B = "(GetNewMasterCardPaymentProvider golib_sample)\<lparr>GetName := ''visa''\<rparr>"
  have nA: "GetName ?A = ''visa''" by (simp add: GetNewVisaPaymentProvider_def)
  have nB: "GetName ?B = ''visa''" by simp
  have e: "\<forall>q \<in> set []. GetName q \<noteq> (n :: string)" for n by simp
  from registry_last_registered_wins [of "[]" ?B "[?A]"] nB
  have 1: "getProvider (NewPaymentProcessor [?A, ?B]) ''visa'' = Inr ?B" by simp
  from registry_last_registered_wins [of "[]" ?A "[?B]"] nA
  have 2: "getProvider (NewPaymentProcessor [?B, ?A]) ''visa'' = Inr ?A" by simp
  have 3: "ParseErrorResponse ?A VNil \<noteq> ParseErrorResponse ?B VNil"
    by (simp add: GetNewVisaPaymentProvider_def GetNewMasterCardPaymentProvider_def
          visa_ParseErrorResponse_def mastercard_ParseErrorResponse_def
          unmarshal_visa_PaymentError_def unmarshal_mastercard_PaymentError_def)
  from 1 2 3 show ?thesis by simp
qed

subsection \<open>Fail-fast validation (C10)\<close>

lemma first_violation_hd:
  "first_violation cs r = (case violations cs r of [] \<Rightarrow> None | e # _ \<Rightarrow> Some e)"
  by (induction cs) (auto simp: violations_def)

text \<open>
  C10: for every request, each reference adapter's validate returns the reason of the
  first violated check in the fixed order (amount not positive, amount ceiling, currency,
  card number presence, card number length, expiry, CVV presence, CVV length): the head
  of the list of all violated reasons, and nothing when that list is empty. The result is
  one reason, never an aggregate; in particular with two or more violations only the
  first is returned.
\<close>

theorem validate_first_failing_reason:
  "visa_ValidateRequest r = first_violation validation_checks r \<and>
   mastercard_ValidateRequest r = first_violation validation_checks r \<and>
   first_violation validation_checks r =
     (case violations validation_checks r of [] \<Rightarrow> None | e # _ \<Rightarrow> Some e)"
  unfolding first_violation_hd [symmetric]
  by (simp add: visa_ValidateRequest_def mastercard_ValidateRequest_def validation_checks_def)

end
